theory Spec2Isabelle
  imports Main "HOL-Library.Sublist" "HOL-Library.Char_ord" "HOL-Library.List_Lexorder"
    "HOL-Library.Multiset"
begin

section \<open>JavaScript values used by the frontend\<close>

text \<open>
  Strings are lists of 8-bit code units (the Latin-1 range of JavaScript's UTF-16 code
  units). In that range \<open>String.prototype.toLowerCase\<close> works unit by unit and
  \<open>String.prototype.trim\<close> strips TAB, LF, VT, FF, CR, SPACE and NBSP.
\<close>

definition isWhiteSpace :: "char \<Rightarrow> bool" where
  "isWhiteSpace c =
     (let n = (of_char c :: nat)
      in n = 9 \<or> n = 10 \<or> n = 11 \<or> n = 12 \<or> n = 13 \<or> n = 32 \<or> n = 160)"

definition trim :: "string \<Rightarrow> string" where
  "trim s = rev (dropWhile isWhiteSpace (rev (dropWhile isWhiteSpace s)))"

definition lowerUnit :: "char \<Rightarrow> char" where
  "lowerUnit c =
     (let n = (of_char c :: nat)
      in if (65 \<le> n \<and> n \<le> 90) \<or> (192 \<le> n \<and> n \<le> 222 \<and> n \<noteq> 215)
         then char_of (n + 32) else c)"

definition toLowerCase :: "string \<Rightarrow> string" where
  "toLowerCase s = map lowerUnit s"

text \<open>\<open>s.includes(q)\<close>: does \<open>q\<close> start at some position of \<open>s\<close>.\<close>

fun js_includes :: "string \<Rightarrow> string \<Rightarrow> bool" where
  "js_includes [] q = (q = [])"
| "js_includes (c # s) q = (prefix q (c # s) \<or> js_includes s q)"

text \<open>Truthiness of an optional string: \<open>undefined\<close> and \<open>""\<close> are falsy.\<close>

definition truthy :: "string option \<Rightarrow> bool" where
  "truthy v = (case v of None \<Rightarrow> False | Some s \<Rightarrow> s \<noteq> [])"

text \<open>
  A thrown value. An awaited promise is a sum: \<open>Inl\<close> the rejection, \<open>Inr\<close> the
  value it resolves to.
\<close>

datatype js_error = AxiosError string | TypeError string | Error string

type_synonym 'a promise = "js_error + 'a"


section \<open>types/index.ts\<close>

text \<open>
  The interfaces of the API. The field \<open>id\<close> is written \<open>id'\<close> here, and a JavaScript
  number is a type parameter.
\<close>

record Product =
  id' :: string
  title :: string
  brand :: string
  price :: string
  description :: string
  images :: "string list"
  categories :: "string list"
  material :: string
  color :: string
  country_of_origin :: string
  manufacturer :: string
  package_dimensions :: string
  uniq_id :: string

record 'n RecommendationFilters =
  categories :: "string list option"
  price_range :: "('n \<times> 'n) option"
  brand :: "string list option"
  material :: "string list option"

record 'n RecommendationRequest =
  query :: string
  limit :: "'n option"
  filters :: "'n RecommendationFilters option"

record 'n RecommendationResponse =
  recommendations :: "Product list"
  query :: string
  total_found :: 'n
  processing_time :: 'n

record 'a ApiResponse =
  success :: bool
  data :: 'a
  message :: "string option"
  error :: "string option"

text \<open>
  The interface declarations themselves, as data: each field with its declared type.
\<close>

datatype ts_type = TString | TNumber | TArray ts_type | TTuple "ts_type list" | TRef string

definition Product_interface :: "(string \<times> ts_type) list" where
  "Product_interface =
     [(''id'', TString), (''title'', TString), (''brand'', TString), (''price'', TString),
      (''description'', TString), (''images'', TArray TString),
      (''categories'', TArray TString), (''material'', TString), (''color'', TString),
      (''country_of_origin'', TString), (''manufacturer'', TString),
      (''package_dimensions'', TString), (''uniq_id'', TString)]"

definition RecommendationResponse_interface :: "(string \<times> ts_type) list" where
  "RecommendationResponse_interface =
     [(''recommendations'', TArray (TRef ''Product'')), (''query'', TString),
      (''total_found'', TNumber), (''processing_time'', TNumber)]"

definition declared :: "string \<Rightarrow> (string \<times> ts_type) list" where
  "declared name =
     (if name = ''Product'' then Product_interface
      else if name = ''RecommendationResponse'' then RecommendationResponse_interface
      else [])"


section \<open>services/api.ts\<close>

text \<open>
  What \<open>await this.api.get(...)\<close> or \<open>await this.api.post(...)\<close> settles to is a
  parameter of each method: the interceptors of the constructor log and pass the response
  or the rejection on unchanged.
\<close>

record 'a AxiosResponse =
  status :: int
  data :: 'a

definition healthCheck :: "'a AxiosResponse promise \<Rightarrow> bool promise" where
  "healthCheck get_health =
     (case get_health of
        Inr response \<Rightarrow> Inr (status response = 200)
      | Inl err \<Rightarrow> Inr False)"

definition getSampleProducts :: "'a AxiosResponse promise \<Rightarrow> 'a promise" where
  "getSampleProducts get_sample =
     (case get_sample of
        Inr response \<Rightarrow> Inr (AxiosResponse.data response)
      | Inl err \<Rightarrow> Inl err)"

definition ApiService_generateAIDescription :: "'a AxiosResponse promise \<Rightarrow> 'a promise" where
  "ApiService_generateAIDescription post_generate =
     (case post_generate of
        Inr response \<Rightarrow> Inr (AxiosResponse.data response)
      | Inl err \<Rightarrow> Inl err)"

text \<open>
  getRecommendations. The body of the response is \<open>None\<close> when it is null or undefined:
  reading \<open>response.data.data\<close> then throws a TypeError inside the \<open>try\<close>, which the
  \<open>catch\<close> replaces by its own error. The \<open>success\<close> and \<open>error\<close> fields of the
  envelope are not read.
\<close>

definition getRecommendations ::
  "'n RecommendationResponse ApiResponse option AxiosResponse promise
     \<Rightarrow> 'n RecommendationResponse promise" where
  "getRecommendations post_recommendations =
     (case post_recommendations of
        Inr response \<Rightarrow>
          (case AxiosResponse.data response of
             Some envelope \<Rightarrow> Inr (ApiResponse.data envelope)
           | None \<Rightarrow> Inl (Error ''Failed to fetch recommendations''))
      | Inl err \<Rightarrow> Inl (Error ''Failed to fetch recommendations''))"


section \<open>pages/RecommendationPage.tsx\<close>

text \<open>
  The object literal that generateAIDescription sends for a product, and the page's own
  Product interface (its material and ai_description are optional, its categories a
  string or an array of strings).
\<close>

record productData =
  title :: string
  brand :: string
  material :: "string option"
  categories :: "string + string list"
  price :: string
  description :: string

record PageProduct =
  id' :: string
  title :: string
  brand :: string
  price :: string
  description :: string
  image :: string
  categories :: "string + string list"
  material :: "string option"
  ai_description :: "string option"

text \<open>The component's state: one field for each useState hook.\<close>

record PageState =
  query :: string
  recommendations :: "PageProduct list"
  loading :: bool
  backendStatus :: string
  error :: "string option"
  generatingAI :: "string set"

text \<open>The calls a handler makes on apiService, in order.\<close>

datatype api_call = GetSampleProducts | GenerateAIDescription string productData

text \<open>
  The arrow function handed to \<open>allProducts.filter\<close> (lines 89 to 92). \<open>||\<close> stops at the
  first true operand; \<open>product.material.toLowerCase()\<close> throws a TypeError when the
  material is undefined.
\<close>

definition matchesQuery :: "string \<Rightarrow> PageProduct \<Rightarrow> bool promise" where
  "matchesQuery q product =
     (if js_includes (toLowerCase (PageProduct.title product)) (toLowerCase q) then Inr True
      else if js_includes (toLowerCase (PageProduct.description product)) (toLowerCase q)
        then Inr True
      else (case PageProduct.material product of
              None \<Rightarrow> Inl (TypeError ''undefined has no property toLowerCase'')
            | Some m \<Rightarrow> Inr (js_includes (toLowerCase m) (toLowerCase q))))"

text \<open>\<open>Array.prototype.filter\<close> with a callback that may throw: left to right, order kept.\<close>

fun js_filter :: "('a \<Rightarrow> bool promise) \<Rightarrow> 'a list \<Rightarrow> 'a list promise" where
  "js_filter f [] = Inr []"
| "js_filter f (x # xs) =
     (case f x of
        Inl e \<Rightarrow> Inl e
      | Inr keep \<Rightarrow>
          (case js_filter f xs of
             Inl e \<Rightarrow> Inl e
           | Inr ys \<Rightarrow> Inr (if keep then x # ys else ys)))"

definition filteredProducts :: "string \<Rightarrow> PageProduct list \<Rightarrow> PageProduct list promise" where
  "filteredProducts q ps = js_filter (matchesQuery q) ps"

text \<open>
  handleSearch. The body of the sample response is an object, modelled by its
  \<open>products\<close> property: an array of products, or \<open>None\<close> when it is missing;
  \<open>allProducts\<close> is \<open>response.products || []\<close>. The result is the new state and the
  calls made.
\<close>

definition allProducts :: "PageProduct list option \<Rightarrow> PageProduct list" where
  "allProducts products = (case products of None \<Rightarrow> [] | Some ps \<Rightarrow> ps)"

definition handleSearch ::
  "PageProduct list option AxiosResponse promise \<Rightarrow> PageState \<Rightarrow> PageState \<times> api_call list" where
  "handleSearch get_sample s =
     (if trim (PageState.query s) = [] then (s, [])
      else
        let s1 = s\<lparr>loading := True, error := None\<rparr>;
            outcome =
              (case getSampleProducts get_sample of
                 Inl e \<Rightarrow> Inl e
               | Inr products \<Rightarrow> filteredProducts (PageState.query s) (allProducts products))
        in ((case outcome of
               Inr filtered \<Rightarrow> s1\<lparr>recommendations := filtered, loading := False\<rparr>
             | Inl e \<Rightarrow>
                 s1\<lparr>error := Some ''Failed to get recommendations. Please try again.'',
                    loading := False\<rparr>),
            [GetSampleProducts]))"

text \<open>
  generateAIDescription. The body of the response is modelled by its \<open>ai_description\<close>
  property.
\<close>

definition generateAIDescription ::
  "string option AxiosResponse promise \<Rightarrow> PageProduct \<Rightarrow> PageState
     \<Rightarrow> PageState \<times> api_call list" where
  "generateAIDescription post_generate product s =
     (if truthy (ai_description product) then (s, [])
      else
        let s1 = s\<lparr>generatingAI := insert (PageProduct.id' product) (generatingAI s)\<rparr>;
            s2 =
              (case ApiService_generateAIDescription post_generate of
                 Inr response \<Rightarrow>
                   s1\<lparr>recommendations :=
                        map (\<lambda>p. if PageProduct.id' p = PageProduct.id' product
                                 then p\<lparr>ai_description := response\<rparr> else p)
                          (PageState.recommendations s1)\<rparr>
               | Inl e \<Rightarrow> s1)
        in (s2\<lparr>generatingAI := generatingAI s2 - {PageProduct.id' product}\<rparr>,
            [GenerateAIDescription (PageProduct.id' product)
               \<lparr>productData.title = PageProduct.title product,
                productData.brand = PageProduct.brand product,
                productData.material = PageProduct.material product,
                productData.categories = PageProduct.categories product,
                productData.price = PageProduct.price product,
                productData.description = PageProduct.description product\<rparr>]))"


section \<open>The retrieval pipeline behind POST /api/v1/recommendations\<close>

text \<open>
  Modelled from the spec: the backend that answers getRecommendations (the Embedding
  Gateway, the Similarity Index, the Ranking and Filter Engine and the Recommendation
  Service of sections 4.1 to 4.4) is not among the sources; only its caller and the
  request and response types are. The definitions of this section follow the words of
  the specification. The external collaborators are parameters: the encoder
  (\<open>delegate\<close>, by attempt number), the similarity of two vectors, the reading of a
  price string as a number, the oversample factor and the measured latency.
\<close>

text \<open>Modelled from the spec: the error taxonomy of section 7.\<close>

datatype failure = InvalidInput | UpstreamUnavailable | NotFound

text \<open>
  Modelled from the spec: collapsing whitespace (section 4.1), each run of whitespace
  becoming one space; the flag says that the unit before was whitespace.
\<close>

fun collapseWhitespace :: "bool \<Rightarrow> string \<Rightarrow> string" where
  "collapseWhitespace after_space [] = []"
| "collapseWhitespace after_space (c # cs) =
     (if isWhiteSpace c
      then (if after_space then collapseWhitespace True cs
            else CHR '' '' # collapseWhitespace True cs)
      else c # collapseWhitespace False cs)"

text \<open>
  Modelled from the spec: the normalisation that section 4.1 requires of the gateway,
  lower-casing and collapsing whitespace, the same for products and queries.
\<close>

definition normalize :: "string \<Rightarrow> string" where
  "normalize text = collapseWhitespace False (toLowerCase text)"

text \<open>
  Modelled from the spec: \<open>embed\<close> of section 4.1. Empty input after trimming is
  InvalidInput; the delegate is tried once more after a failure, then the call fails with
  UpstreamUnavailable.
\<close>

definition embed :: "(nat \<Rightarrow> string \<Rightarrow> 'v option) \<Rightarrow> string \<Rightarrow> failure + 'v" where
  "embed delegate text =
     (if trim text = [] then Inl InvalidInput
      else (case delegate 0 (normalize text) of
              Some v \<Rightarrow> Inr v
            | None \<Rightarrow>
                (case delegate 1 (normalize text) of
                   Some v \<Rightarrow> Inr v
                 | None \<Rightarrow> Inl UpstreamUnavailable)))"

text \<open>
  Modelled from the spec: the Similarity Index of section 4.2 stores one entry per
  product id, the product (its metadata, which holds the id) with its vector.
\<close>

type_synonym 'v index = "(Product \<times> 'v) list"

text \<open>
  Modelled from the spec: \<open>upsert\<close> of section 4.2 replaces any prior entry for the id,
  so that no id occurs twice.
\<close>

definition upsert :: "Product \<Rightarrow> 'v \<Rightarrow> 'v index \<Rightarrow> 'v index" where
  "upsert p v idx = (p, v) # filter (\<lambda>e. Product.id' (fst e) \<noteq> Product.id' p) idx"

text \<open>Modelled from the spec: deletion (section 4.2) removes the id with its vector.\<close>

definition delete_entry :: "string \<Rightarrow> 'v index \<Rightarrow> 'v index" where
  "delete_entry i idx = filter (\<lambda>e. Product.id' (fst e) \<noteq> i) idx"

text \<open>
  Modelled from the spec: the order of the answers of section 4.2, descending score and,
  on equal scores, ascending product id.
\<close>

definition ranks_before :: "Product \<times> 's::linorder \<Rightarrow> Product \<times> 's \<Rightarrow> bool" where
  "ranks_before a b =
     (snd b < snd a \<or> (snd a = snd b \<and> Product.id' (fst a) \<le> Product.id' (fst b)))"

text \<open>
  Modelled from the spec: putting one scored entry at its place in a list that is in
  that order, behind the entries that rank before it.
\<close>

fun insert_ranked :: "Product \<times> 's::linorder \<Rightarrow> (Product \<times> 's) list \<Rightarrow> (Product \<times> 's) list" where
  "insert_ranked x [] = [x]"
| "insert_ranked x (y # ys) =
     (if ranks_before x y then x # y # ys else y # insert_ranked x ys)"

text \<open>Modelled from the spec: the scored entries in the order of section 4.2.\<close>

fun sort_ranked :: "(Product \<times> 's::linorder) list \<Rightarrow> (Product \<times> 's) list" where
  "sort_ranked [] = []"
| "sort_ranked (x # xs) = insert_ranked x (sort_ranked xs)"

text \<open>
  Modelled from the spec: \<open>query(vector, k)\<close> of section 4.2, the k best entries with
  their scores; a k beyond the size of the index returns all entries.
\<close>

definition query_index ::
  "('v \<Rightarrow> 'v \<Rightarrow> 's::linorder) \<Rightarrow> 'v index \<Rightarrow> 'v \<Rightarrow> nat \<Rightarrow> (Product \<times> 's) list" where
  "query_index similarity idx v k =
     take k (sort_ranked (map (\<lambda>e. (fst e, similarity v (snd e))) idx))"

text \<open>
  Modelled from the spec: the conjunctive predicate of section 4.3 over a candidate's
  metadata: a category in common if categories are given, the price within the interval,
  the brand and the material among those given. Absent criteria constrain nothing.
\<close>

definition satisfies ::
  "(string \<Rightarrow> 'n::linorder) \<Rightarrow> 'n RecommendationFilters option \<Rightarrow> Product \<Rightarrow> bool" where
  "satisfies priceOf criteria p =
     (case criteria of
        None \<Rightarrow> True
      | Some f \<Rightarrow>
          (case RecommendationFilters.categories f of
             None \<Rightarrow> True
           | Some cs \<Rightarrow> set (Product.categories p) \<inter> set cs \<noteq> {}) \<and>
          (case price_range f of
             None \<Rightarrow> True
           | Some (lo, hi) \<Rightarrow> lo \<le> priceOf (Product.price p) \<and> priceOf (Product.price p) \<le> hi) \<and>
          (case RecommendationFilters.brand f of
             None \<Rightarrow> True
           | Some bs \<Rightarrow> Product.brand p \<in> set bs) \<and>
          (case RecommendationFilters.material f of
             None \<Rightarrow> True
           | Some ms \<Rightarrow> Product.material p \<in> set ms))"

text \<open>
  Modelled from the spec: the Ranking and Filter Engine of section 4.3 drops the
  candidates that fail the predicate and keeps the others as they come.
\<close>

definition rank_filter ::
  "(string \<Rightarrow> 'n::linorder) \<Rightarrow> 'n RecommendationFilters option \<Rightarrow> (Product \<times> 's) list
     \<Rightarrow> (Product \<times> 's) list" where
  "rank_filter priceOf criteria candidates =
     filter (\<lambda>c. satisfies priceOf criteria (fst c)) candidates"

text \<open>
  Modelled from the spec: the Recommendation Result of section 3, the scored products
  in order, the original query, the count of matching candidates and the latency.
\<close>

record ('s, 't) RecommendationResult =
  result_entries :: "(Product \<times> 's) list"
  result_query :: string
  result_total_found :: nat
  result_latency :: 't

text \<open>
  Modelled from the spec: \<open>recommend(query, k, filters)\<close> of section 4.4. Invalid input
  (section 7: an empty query, k not positive) is rejected first; then the query is
  embedded, k times the oversample factor candidates are requested, filtered and
  truncated to k, and the latency is recorded.
\<close>

definition recommend ::
  "(nat \<Rightarrow> string \<Rightarrow> 'v option) \<Rightarrow> ('v \<Rightarrow> 'v \<Rightarrow> 's::linorder) \<Rightarrow> nat \<Rightarrow> (string \<Rightarrow> 'n::linorder)
     \<Rightarrow> 'v index \<Rightarrow> 't \<Rightarrow> string \<Rightarrow> int \<Rightarrow> 'n RecommendationFilters option
     \<Rightarrow> failure + ('s, 't) RecommendationResult" where
  "recommend delegate similarity oversample_factor priceOf idx elapsed q k criteria =
     (if trim q = [] \<or> k \<le> 0 then Inl InvalidInput
      else (case embed delegate q of
              Inl e \<Rightarrow> Inl e
            | Inr v \<Rightarrow>
                let candidates = query_index similarity idx v (nat k * oversample_factor);
                    matched = rank_filter priceOf criteria candidates
                in Inr \<lparr>result_entries = take (nat k) matched, result_query = q,
                        result_total_found = length matched, result_latency = elapsed\<rparr>))"


section \<open>The claims' own notions\<close>

text \<open>
  "Contains the query as a case-insensitive substring", in the words of the specification:
  after lower-casing both, the query occurs as a contiguous block of the text.
\<close>

definition containsCaseInsensitive :: "string \<Rightarrow> string \<Rightarrow> bool" where
  "containsCaseInsensitive text q = sublist (toLowerCase q) (toLowerCase text)"

definition substringMatch :: "string \<Rightarrow> PageProduct \<Rightarrow> bool" where
  "substringMatch q product =
     (containsCaseInsensitive (PageProduct.title product) q \<or>
      containsCaseInsensitive (PageProduct.description product) q \<or>
      (case PageProduct.material product of
         None \<Rightarrow> False
       | Some m \<Rightarrow> containsCaseInsensitive m q))"

text \<open>Sample data for the concrete evaluations below.\<close>

definition redSofa :: PageProduct where
  "redSofa =
     \<lparr>id' = ''p1'', title = ''Red Sofa'', brand = ''Acme'', price = ''$120'',
      description = ''A sofa'', image = ''sofa.png'', categories = Inl ''Sofas'',
      material = Some ''Leather'', ai_description = None\<rparr>"

definition oakChair :: PageProduct where
  "oakChair =
     \<lparr>id' = ''p2'', title = ''Chair'', brand = ''Acme'', price = ''$40'',
      description = ''Seat'', image = ''chair.png'', categories = Inr [''Chairs''],
      material = Some ''Oak'', ai_description = None\<rparr>"

definition idlePage :: "string \<Rightarrow> PageProduct list \<Rightarrow> PageState" where
  "idlePage q shown =
     \<lparr>query = q, recommendations = shown, loading = False, backendStatus = ''connected'',
      error = None, generatingAI = {}\<rparr>"


text \<open>
  A sample index for the pipeline: vectors are integers, the similarity of two of them is
  the negated distance, the encoder maps a text to its length (and answers at the first
  attempt), and a price string reads as its length.
\<close>

definition catalogProduct :: "string \<Rightarrow> string \<Rightarrow> string \<Rightarrow> Product" where
  "catalogProduct i t b =
     \<lparr>Product.id' = i, Product.title = t, Product.brand = b, Product.price = ''100'',
      Product.description = t, Product.images = [], Product.categories = [''Furniture''],
      Product.material = ''Wood'', Product.color = ''Red'', Product.country_of_origin = ''IN'',
      Product.manufacturer = b, Product.package_dimensions = ''1x1x1'',
      Product.uniq_id = i\<rparr>"

definition sampleIndex :: "int index" where
  "sampleIndex =
     [(catalogProduct ''b'' ''Blue Sofa'' ''Acme'', 9),
      (catalogProduct ''a'' ''Red Sofa'' ''Acme'', 1),
      (catalogProduct ''c'' ''Red Chair'' ''Borg'', 5)]"

definition sampleDelegate :: "nat \<Rightarrow> string \<Rightarrow> int option" where
  "sampleDelegate attempt text = Some (int (length text))"

text \<open>The same encoder behind a delegate whose first attempt always fails.\<close>

definition flakyDelegate :: "nat \<Rightarrow> string \<Rightarrow> int option" where
  "flakyDelegate attempt text = (if attempt = 0 then None else Some (int (length text)))"

definition sampleSimilarity :: "int \<Rightarrow> int \<Rightarrow> int" where
  "sampleSimilarity v w = - \<bar>v - w\<bar>"

definition samplePriceOf :: "string \<Rightarrow> int" where
  "samplePriceOf text = int (length text)"

definition brandOnly :: "string \<Rightarrow> int RecommendationFilters option" where
  "brandOnly b =
     Some \<lparr>RecommendationFilters.categories = None, price_range = None,
           RecommendationFilters.brand = Some [b], RecommendationFilters.material = None\<rparr>"


section \<open>Properties of the API client\<close>

text \<open>
  C10. healthCheck never throws: for every outcome of the /health request it resolves to
  a boolean, which is true exactly when the request succeeded with HTTP status 200.
\<close>

theorem healthCheck_total:
  "(\<exists>b. healthCheck r = Inr b) \<and>
   (healthCheck r = Inr True \<longleftrightarrow> (\<exists>response. r = Inr response \<and> status response = 200)) \<and>
   (healthCheck r = Inr False \<longleftrightarrow>
      (\<exists>err. r = Inl err) \<or> (\<exists>response. r = Inr response \<and> status response \<noteq> 200))"
  by (cases r) (auto simp: healthCheck_def)


text \<open>
  C9 (as amended). When the request for recommendations is rejected, or its response has
  no body, getRecommendations throws the error "Failed to fetch recommendations" and
  returns no data; these are the only cases in which it throws. From every other
  response it returns the data of the envelope, whatever the envelope's \<open>success\<close> and
  \<open>error\<close> fields say.
\<close>

theorem getRecommendations_failure:
  "getRecommendations (Inl err) = Inl (Error ''Failed to fetch recommendations'') \<and>
   getRecommendations (Inl err) \<noteq> Inr result \<and>
   getRecommendations (Inr \<lparr>status = st, data = None\<rparr>)
     = Inl (Error ''Failed to fetch recommendations'') \<and>
   getRecommendations (Inr \<lparr>status = st, data = Some envelope\<rparr>)
     = Inr (ApiResponse.data envelope) \<and>
   ((\<exists>e. getRecommendations r = Inl e) \<longleftrightarrow>
      (\<exists>e. r = Inl e) \<or> (\<exists>response. r = Inr response \<and> AxiosResponse.data response = None)) \<and>
   ((\<exists>e. getRecommendations r = Inl e) \<longleftrightarrow>
      getRecommendations r = Inl (Error ''Failed to fetch recommendations''))"
  by (cases r) (auto simp: getRecommendations_def split: option.splits)

text \<open>
  The request succeeds with status 200 and an envelope that reports a failed stage
  (\<open>success\<close> false, an \<open>error\<close> message) around an empty result: getRecommendations
  returns the empty result and throws nothing.
\<close>

theorem getRecommendations_envelope_counterexample:
  "getRecommendations
     (Inr \<lparr>status = 200,
           data = Some \<lparr>success = False,
                        ApiResponse.data =
                          \<lparr>RecommendationResponse.recommendations = [],
                           RecommendationResponse.query = ''sofa'',
                           total_found = 0 :: int, processing_time = 0\<rparr>,
                        message = None,
                        ApiResponse.error = Some ''embedding unavailable''\<rparr>\<rparr>)
   = Inr \<lparr>RecommendationResponse.recommendations = [],
          RecommendationResponse.query = ''sofa'',
          total_found = 0, processing_time = 0\<rparr>"
  by (simp add: getRecommendations_def)


section \<open>Properties of the search of the recommendation page\<close>

lemma js_includes_sublist: "js_includes s q \<longleftrightarrow> sublist q s"
  by (induction s) (auto simp: sublist_Cons_right)

lemma js_filter_Inr:
  "js_filter f xs = Inr ys \<Longrightarrow> ys = filter (\<lambda>x. f x = Inr True) xs \<and> (\<forall>x\<in>set xs. \<exists>b. f x = Inr b)"
  by (induction xs arbitrary: ys) (auto split: sum.splits if_splits)

lemma js_filter_total:
  "(\<forall>x\<in>set xs. \<exists>b. f x = Inr b) \<Longrightarrow> js_filter f xs = Inr (filter (\<lambda>x. f x = Inr True) xs)"
  by (induction xs) (auto split: sum.splits)

lemma matchesQuery_True:
  "matchesQuery q p = Inr True \<longleftrightarrow> substringMatch q p"
  by (auto simp: matchesQuery_def substringMatch_def containsCaseInsensitive_def js_includes_sublist
      split: option.splits)

lemma matchesQuery_returns:
  "(\<exists>b. matchesQuery q p = Inr b) \<longleftrightarrow>
     (PageProduct.material p = None \<longrightarrow>
        containsCaseInsensitive (PageProduct.title p) q \<or>
        containsCaseInsensitive (PageProduct.description p) q)"
  by (auto simp: matchesQuery_def containsCaseInsensitive_def js_includes_sublist
      split: option.splits)

lemma filteredProducts_Inr:
  "filteredProducts q ps = Inr out \<Longrightarrow> out = filter (substringMatch q) ps"
  unfolding filteredProducts_def
  by (drule js_filter_Inr) (simp add: matchesQuery_True)

lemma filteredProducts_total:
  assumes "\<forall>p\<in>set ps. PageProduct.material p = None \<longrightarrow>
        containsCaseInsensitive (PageProduct.title p) q \<or>
        containsCaseInsensitive (PageProduct.description p) q"
  shows "filteredProducts q ps = Inr (filter (substringMatch q) ps)"
proof -
  from assms have "\<forall>p\<in>set ps. \<exists>b. matchesQuery q p = Inr b"
    by (simp add: matchesQuery_returns)
  then show ?thesis
    unfolding filteredProducts_def by (simp add: js_filter_total matchesQuery_True)
qed

text \<open>
  C1 (as amended). For every query that is non-empty after trimming, when the request for
  the sample products succeeds and every fetched product either has a material or already
  matches by its title or description, handleSearch replaces the displayed products by
  exactly the fetched products whose title, description or material contains the query
  as a case-insensitive substring, in the fetched order, and reports no error.
\<close>

theorem handleSearch_substring_filter:
  assumes "trim (PageState.query s) \<noteq> []"
    and "get_sample = Inr response"
    and "\<forall>p\<in>set (allProducts (AxiosResponse.data response)).
           PageProduct.material p = None \<longrightarrow>
             containsCaseInsensitive (PageProduct.title p) (PageState.query s) \<or>
             containsCaseInsensitive (PageProduct.description p) (PageState.query s)"
  shows "PageState.recommendations (fst (handleSearch get_sample s)) =
           filter (substringMatch (PageState.query s)) (allProducts (AxiosResponse.data response)) \<and>
         PageState.error (fst (handleSearch get_sample s)) = None"
  using assms(1,2) filteredProducts_total[OF assms(3)]
  by (simp add: handleSearch_def getSampleProducts_def Let_def)

theorem handleSearch_substring_filter_witness:
  "trim ''sofa'' \<noteq> [] \<and>
   PageProduct.material redSofa \<noteq> None \<and> PageProduct.material oakChair \<noteq> None \<and>
   PageState.recommendations
     (fst (handleSearch (Inr \<lparr>status = 200, data = Some [redSofa, oakChair]\<rparr>)
        (idlePage ''sofa'' [oakChair]))) = [redSofa]"
proof -
  have nonblank: "trim (PageState.query (idlePage ''sofa'' [oakChair])) \<noteq> []"
    by code_simp
  have m1: "PageProduct.material redSofa \<noteq> None" and m2: "PageProduct.material oakChair \<noteq> None"
    by (simp_all add: redSofa_def oakChair_def)
  have mat: "\<forall>p\<in>set (allProducts (AxiosResponse.data \<lparr>status = 200, data = Some [redSofa, oakChair]\<rparr>)).
           PageProduct.material p = None \<longrightarrow>
             containsCaseInsensitive (PageProduct.title p) (PageState.query (idlePage ''sofa'' [oakChair])) \<or>
             containsCaseInsensitive (PageProduct.description p) (PageState.query (idlePage ''sofa'' [oakChair]))"
    using m1 m2 by (auto simp: allProducts_def)
  have flt: "filter (substringMatch (PageState.query (idlePage ''sofa'' [oakChair])))
              (allProducts (AxiosResponse.data \<lparr>status = 200, data = Some [redSofa, oakChair]\<rparr>))
            = [redSofa]"
    by code_simp
  have "PageState.recommendations
     (fst (handleSearch (Inr \<lparr>status = 200, data = Some [redSofa, oakChair]\<rparr>)
        (idlePage ''sofa'' [oakChair]))) = [redSofa]"
    using handleSearch_substring_filter[OF nonblank refl mat] by (simp only: flt)
  moreover have "trim ''sofa'' \<noteq> []" by code_simp
  ultimately show ?thesis using m1 m2 by simp
qed

text \<open>
  The query of one space is not empty, and the title \<open>Red Sofa\<close> contains it; handleSearch
  returns at its guard, makes no request and leaves the displayed list empty.
\<close>

theorem handleSearch_blank_query_counterexample:
  "PageState.query (idlePage '' '' []) \<noteq> [] \<and>
   filter (substringMatch '' '') [redSofa, oakChair] = [redSofa] \<and>
   handleSearch (Inr \<lparr>status = 200, data = Some [redSofa, oakChair]\<rparr>) (idlePage '' '' [])
     = (idlePage '' '' [], [])"
  by code_simp

lemma handleSearch_shows_filtered:
  assumes "trim q \<noteq> []" and "filteredProducts q ps = Inr out"
  shows "PageState.recommendations
              (fst (handleSearch (Inr \<lparr>status = st, data = Some ps\<rparr>) (s\<lparr>query := q\<rparr>))) = out"
  using assms by (simp add: handleSearch_def getSampleProducts_def allProducts_def Let_def)

text \<open>
  C4. The filter of handleSearch only subtracts: the products it keeps are a subsequence
  of the fetched products in the fetched order, every kept product matches the query and
  every matching product is kept, so that when fewer products match than any requested
  number, fewer are shown and none that failed the filter comes back. For a query that
  is not blank this list is what handleSearch displays.
\<close>

theorem filteredProducts_only_subtracts:
  assumes "filteredProducts q ps = Inr out"
  shows "subseq out ps \<and>
         (\<forall>p\<in>set out. substringMatch q p) \<and>
         (\<forall>p\<in>set ps. substringMatch q p \<longrightarrow> p \<in> set out) \<and>
         length out = length (filter (substringMatch q) ps) \<and>
         (\<forall>k. length (filter (substringMatch q) ps) < k \<longrightarrow> length out < k) \<and>
         (trim q \<noteq> [] \<longrightarrow>
            PageState.recommendations
              (fst (handleSearch (Inr \<lparr>status = st, data = Some ps\<rparr>) (s\<lparr>query := q\<rparr>))) = out)"
proof -
  have out: "out = filter (substringMatch q) ps"
    using assms by (rule filteredProducts_Inr)
  have a: "subseq out ps" unfolding out by (rule subseq_filter_left)
  have b: "\<forall>p\<in>set out. substringMatch q p" unfolding out by simp
  have c: "\<forall>p\<in>set ps. substringMatch q p \<longrightarrow> p \<in> set out" unfolding out by simp
  have d: "length out = length (filter (substringMatch q) ps)" unfolding out by simp
  have e: "\<forall>k. length (filter (substringMatch q) ps) < k \<longrightarrow> length out < k" unfolding out by simp
  have f: "trim q \<noteq> [] \<longrightarrow>
            PageState.recommendations
              (fst (handleSearch (Inr \<lparr>status = st, data = Some ps\<rparr>) (s\<lparr>query := q\<rparr>))) = out"
    using assms handleSearch_shows_filtered by blast
  from a b c d e f show ?thesis by blast
qed

theorem filteredProducts_only_subtracts_witness:
  "filteredProducts ''sofa'' [redSofa, oakChair] = Inr [redSofa] \<and>
   subseq [redSofa] [redSofa, oakChair] \<and>
   substringMatch ''sofa'' redSofa \<and>
   length (filter (substringMatch ''sofa'') [redSofa, oakChair]) < 2 \<and>
   length [redSofa] < 2 \<and>
   trim ''sofa'' \<noteq> [] \<and>
   PageState.recommendations
     (fst (handleSearch (Inr \<lparr>status = 200, data = Some [redSofa, oakChair]\<rparr>)
        ((idlePage '''' [])\<lparr>query := ''sofa''\<rparr>))) = [redSofa]"
proof -
  have run: "filteredProducts ''sofa'' [redSofa, oakChair] = Inr [redSofa]"
    by code_simp
  have nonblank: "trim ''sofa'' \<noteq> []"
    by code_simp
  have few: "length (filter (substringMatch ''sofa'') [redSofa, oakChair]) < 2"
    by code_simp
  note inst = filteredProducts_only_subtracts[OF run, of 200 "idlePage '''' []"]
  have sub: "subseq [redSofa] [redSofa, oakChair]"
    using inst by blast
  have kept: "substringMatch ''sofa'' redSofa"
    using inst by simp
  have fewer: "length [redSofa] < 2"
    using inst few by blast
  have shown: "PageState.recommendations
     (fst (handleSearch (Inr \<lparr>status = 200, data = Some [redSofa, oakChair]\<rparr>)
        ((idlePage '''' [])\<lparr>query := ''sofa''\<rparr>))) = [redSofa]"
    using inst nonblank by blast
  from run sub kept few fewer nonblank shown show ?thesis
    by blast
qed

text \<open>
  C5 (as amended). For every query that is empty after trimming, handleSearch returns at
  once: it makes no call on the API and leaves the whole state of the page, its error
  field included, as it was.
\<close>

theorem handleSearch_blank_query_noop:
  "trim (PageState.query s) = [] \<Longrightarrow> handleSearch get_sample s = (s, [])"
  by (simp add: handleSearch_def)

theorem handleSearch_blank_query_noop_witness:
  "trim (PageState.query (idlePage ''  '' [oakChair])) = [] \<and>
   handleSearch (Inr \<lparr>status = 200, data = Some [redSofa, oakChair]\<rparr>) (idlePage ''  '' [oakChair])
     = (idlePage ''  '' [oakChair], [])"
proof -
  have blank: "trim (PageState.query (idlePage ''  '' [oakChair])) = []"
    by code_simp
  from handleSearch_blank_query_noop[OF blank] blank show ?thesis
    by simp
qed

text \<open>
  With the empty query no error is reported: the error field is still empty afterwards.
\<close>

theorem handleSearch_empty_query_counterexample:
  "trim (PageState.query (idlePage '''' [])) = [] \<and>
   PageState.error
     (fst (handleSearch (Inr \<lparr>status = 200, data = Some [redSofa]\<rparr>) (idlePage '''' []))) = None \<and>
   handleSearch (Inr \<lparr>status = 200, data = Some [redSofa]\<rparr>) (idlePage '''' [])
     = (idlePage '''' [], [])"
  by code_simp


section \<open>Properties of the generated descriptions of the page\<close>

lemma generateAIDescription_guard:
  "truthy (ai_description product) \<Longrightarrow> generateAIDescription post_generate product s = (s, [])"
  by (simp add: generateAIDescription_def)

lemma generateAIDescription_stores:
  assumes "\<not> truthy (ai_description product)"
    and "p' \<in> set (PageState.recommendations
                     (fst (generateAIDescription (Inr response) product s)))"
    and "PageProduct.id' p' = PageProduct.id' product"
  shows "ai_description p' = AxiosResponse.data response"
  using assms
  by (auto simp: generateAIDescription_def ApiService_generateAIDescription_def Let_def)

text \<open>
  C8 (as amended). Generated descriptions are kept on the displayed products, not in a
  cache keyed by product id, and the guard of generateAIDescription tests its argument:
  invoked with a product object that carries a non-empty ai_description it makes no call
  on the API and leaves the state unchanged; after an invocation that obtained a
  non-empty description, an invocation with any displayed product of that id is such a
  no-op; and it makes no call exactly when its argument carries a non-empty
  ai_description.
\<close>

theorem generateAIDescription_cached:
  "(truthy (ai_description cached) \<longrightarrow>
      generateAIDescription post_generate cached s0 = (s0, [])) \<and>
   (\<not> truthy (ai_description product) \<and> truthy (AxiosResponse.data response) \<and>
    p' \<in> set (PageState.recommendations
                 (fst (generateAIDescription (Inr response) product s))) \<and>
    PageProduct.id' p' = PageProduct.id' product \<longrightarrow>
      generateAIDescription post_again p' (fst (generateAIDescription (Inr response) product s))
        = (fst (generateAIDescription (Inr response) product s), [])) \<and>
   (snd (generateAIDescription post_any argument s1) = [] \<longleftrightarrow> truthy (ai_description argument))"
proof -
  have calls: "snd (generateAIDescription post_any argument s1) = [] \<longleftrightarrow>
      truthy (ai_description argument)"
    by (simp add: generateAIDescription_def Let_def)
  from calls generateAIDescription_guard generateAIDescription_stores show ?thesis
    by metis
qed

theorem generateAIDescription_cached_witness:
  "truthy (ai_description (redSofa\<lparr>ai_description := Some ''Soft''\<rparr>)) \<and>
   generateAIDescription (Inr \<lparr>status = 200, data = Some ''Plush''\<rparr>)
       (redSofa\<lparr>ai_description := Some ''Soft''\<rparr>)
       (idlePage ''sofa'' [redSofa\<lparr>ai_description := Some ''Soft''\<rparr>, oakChair])
     = (idlePage ''sofa'' [redSofa\<lparr>ai_description := Some ''Soft''\<rparr>, oakChair], []) \<and>
   \<not> truthy (ai_description redSofa) \<and>
   fst (generateAIDescription (Inr \<lparr>status = 200, data = Some ''Soft''\<rparr>) redSofa
          (idlePage ''sofa'' [redSofa, oakChair]))
     = idlePage ''sofa'' [redSofa\<lparr>ai_description := Some ''Soft''\<rparr>, oakChair] \<and>
   generateAIDescription (Inr \<lparr>status = 200, data = Some ''Plush''\<rparr>)
       (redSofa\<lparr>ai_description := Some ''Soft''\<rparr>)
       (fst (generateAIDescription (Inr \<lparr>status = 200, data = Some ''Soft''\<rparr>) redSofa
          (idlePage ''sofa'' [redSofa, oakChair])))
     = (fst (generateAIDescription (Inr \<lparr>status = 200, data = Some ''Soft''\<rparr>) redSofa
          (idlePage ''sofa'' [redSofa, oakChair])), [])"
proof -
  have has: "truthy (ai_description (redSofa\<lparr>ai_description := Some ''Soft''\<rparr>))"
    by (simp add: truthy_def)
  have none: "\<not> truthy (ai_description redSofa)"
    by (simp add: truthy_def redSofa_def)
  have got: "truthy (AxiosResponse.data \<lparr>status = 200, data = Some ''Soft''\<rparr>)"
    by (simp add: truthy_def)
  have first: "fst (generateAIDescription (Inr \<lparr>status = 200, data = Some ''Soft''\<rparr>) redSofa
          (idlePage ''sofa'' [redSofa, oakChair]))
     = idlePage ''sofa'' [redSofa\<lparr>ai_description := Some ''Soft''\<rparr>, oakChair]"
    by code_simp
  have stored: "redSofa\<lparr>ai_description := Some ''Soft''\<rparr>
      \<in> set (PageState.recommendations
                 (fst (generateAIDescription (Inr \<lparr>status = 200, data = Some ''Soft''\<rparr>) redSofa
                    (idlePage ''sofa'' [redSofa, oakChair]))))"
    unfolding first by (simp add: idlePage_def)
  have same: "PageProduct.id' (redSofa\<lparr>ai_description := Some ''Soft''\<rparr>) = PageProduct.id' redSofa"
    by simp
  note inst = generateAIDescription_cached
    [of "redSofa\<lparr>ai_description := Some ''Soft''\<rparr>"
        "Inr \<lparr>status = 200, data = Some ''Plush''\<rparr>"
        "idlePage ''sofa'' [redSofa\<lparr>ai_description := Some ''Soft''\<rparr>, oakChair]"
        redSofa "\<lparr>status = 200, data = Some ''Soft''\<rparr>"
        "redSofa\<lparr>ai_description := Some ''Soft''\<rparr>" "idlePage ''sofa'' [redSofa, oakChair]"
        "Inr \<lparr>status = 200, data = Some ''Plush''\<rparr>"]
  have noop: "generateAIDescription (Inr \<lparr>status = 200, data = Some ''Plush''\<rparr>)
       (redSofa\<lparr>ai_description := Some ''Soft''\<rparr>)
       (idlePage ''sofa'' [redSofa\<lparr>ai_description := Some ''Soft''\<rparr>, oakChair])
     = (idlePage ''sofa'' [redSofa\<lparr>ai_description := Some ''Soft''\<rparr>, oakChair], [])"
    using inst has by blast
  have again: "generateAIDescription (Inr \<lparr>status = 200, data = Some ''Plush''\<rparr>)
       (redSofa\<lparr>ai_description := Some ''Soft''\<rparr>)
       (fst (generateAIDescription (Inr \<lparr>status = 200, data = Some ''Soft''\<rparr>) redSofa
          (idlePage ''sofa'' [redSofa, oakChair])))
     = (fst (generateAIDescription (Inr \<lparr>status = 200, data = Some ''Soft''\<rparr>) redSofa
          (idlePage ''sofa'' [redSofa, oakChair])), [])"
    using inst none got stored same by blast
  from has noop none first again show ?thesis
    by blast
qed


text \<open>
  The description of product p1 has been generated and is displayed. Invoked once more
  with the product object of before, which does not carry it, generateAIDescription
  posts to the API again and overwrites the description of that id.
\<close>

theorem generateAIDescription_stale_argument_counterexample:
  "PageState.recommendations
     (fst (generateAIDescription (Inr \<lparr>status = 200, data = Some ''Soft''\<rparr>) redSofa
        (idlePage ''sofa'' [redSofa, oakChair])))
     = [redSofa\<lparr>ai_description := Some ''Soft''\<rparr>, oakChair] \<and>
   PageProduct.id' redSofa = PageProduct.id' (redSofa\<lparr>ai_description := Some ''Soft''\<rparr>) \<and>
   generateAIDescription (Inr \<lparr>status = 200, data = Some ''Plush''\<rparr>) redSofa
       (idlePage ''sofa'' [redSofa\<lparr>ai_description := Some ''Soft''\<rparr>, oakChair])
     = (idlePage ''sofa'' [redSofa\<lparr>ai_description := Some ''Plush''\<rparr>, oakChair],
        [GenerateAIDescription ''p1''
           \<lparr>productData.title = ''Red Sofa'', productData.brand = ''Acme'',
            productData.material = Some ''Leather'', productData.categories = Inl ''Sofas'',
            productData.price = ''$120'', productData.description = ''A sofa''\<rparr>])"
  by code_simp


section \<open>Properties of the retrieval pipeline\<close>

lemma ranks_before_total: "ranks_before a b \<or> ranks_before b a"
  by (auto simp: ranks_before_def)

lemma ranks_before_trans: "ranks_before a b \<Longrightarrow> ranks_before b c \<Longrightarrow> ranks_before a c"
  by (auto simp: ranks_before_def)

lemma ranks_before_antisym:
  "ranks_before a b \<Longrightarrow> ranks_before b a \<Longrightarrow> snd a = snd b \<and> Product.id' (fst a) = Product.id' (fst b)"
  by (auto simp: ranks_before_def)

lemma set_insert_ranked: "set (insert_ranked x xs) = insert x (set xs)"
  by (induction xs) auto

lemma length_insert_ranked: "length (insert_ranked x xs) = Suc (length xs)"
  by (induction xs) auto

lemma sorted_insert_ranked:
  "sorted_wrt ranks_before xs \<Longrightarrow> sorted_wrt ranks_before (insert_ranked x xs)"
proof (induction xs)
  case Nil
  then show ?case by simp
next
  case (Cons y ys)
  show ?case
  proof (cases "ranks_before x y")
    case True
    with Cons.prems show ?thesis
      by (auto intro: ranks_before_trans)
  next
    case False
    then have "ranks_before y x" using ranks_before_total by blast
    with Cons False show ?thesis
      by (auto simp: set_insert_ranked)
  qed
qed

lemma set_sort_ranked: "set (sort_ranked xs) = set xs"
  by (induction xs) (auto simp: set_insert_ranked)

lemma length_sort_ranked: "length (sort_ranked xs) = length xs"
  by (induction xs) (auto simp: length_insert_ranked)

lemma sorted_sort_ranked: "sorted_wrt ranks_before (sort_ranked xs)"
  by (induction xs) (auto simp: sorted_insert_ranked)

lemma distinct_insert_ranked: "distinct (insert_ranked x xs) \<longleftrightarrow> x \<notin> set xs \<and> distinct xs"
  by (induction xs) (auto simp: set_insert_ranked)

lemma distinct_sort_ranked: "distinct (sort_ranked xs) \<longleftrightarrow> distinct xs"
  by (induction xs) (auto simp: distinct_insert_ranked set_sort_ranked)

text \<open>Two lists in rank order with the same elements, no two sharing an id, are equal.\<close>

lemma ranked_unique:
  assumes "sorted_wrt ranks_before xs" "sorted_wrt ranks_before ys"
    and "set xs = set ys" "distinct (map (\<lambda>c. Product.id' (fst c)) xs)"
    and "distinct (map (\<lambda>c. Product.id' (fst c)) ys)"
  shows "xs = ys"
  using assms
proof (induction xs arbitrary: ys)
  case Nil
  then show ?case by simp
next
  case (Cons x xs)
  then obtain y ys' where ys: "ys = y # ys'" by (cases ys) auto
  have xy: "x = y"
  proof (rule ccontr)
    assume ne: "x \<noteq> y"
    with Cons.prems(3) ys have "x \<in> set ys'" "y \<in> set xs" by auto
    with Cons.prems(1,2) ys have "ranks_before x y" "ranks_before y x" by auto
    then have "Product.id' (fst x) = Product.id' (fst y)" using ranks_before_antisym by blast
    moreover from \<open>y \<in> set xs\<close> Cons.prems(4) have "Product.id' (fst x) \<noteq> Product.id' (fst y)"
      by (auto simp: image_iff)
    ultimately show False by simp
  qed
  have dx: "x \<notin> set xs" using Cons.prems(4) by (auto simp: image_iff)
  have dy: "y \<notin> set ys'" using Cons.prems(5) ys by (auto simp: image_iff)
  from Cons.prems(3) ys xy dx dy have "set xs = set ys'" by auto
  with Cons.IH[of ys'] Cons.prems ys have "xs = ys'" by auto
  with xy ys show ?case by simp
qed

lemma sorted_scores:
  "sorted_wrt ranks_before xs \<Longrightarrow> sorted_wrt (\<lambda>a b. snd b \<le> snd a) xs"
  by (erule sorted_wrt_mono_rel[rotated]) (auto simp: ranks_before_def)

lemma sorted_ties:
  "sorted_wrt ranks_before xs \<Longrightarrow>
   sorted_wrt (\<lambda>a b. snd a = snd b \<longrightarrow> Product.id' (fst a) \<le> Product.id' (fst b)) xs"
  by (erule sorted_wrt_mono_rel[rotated]) (auto simp: ranks_before_def)


lemma mset_insert_ranked: "mset (insert_ranked x xs) = add_mset x (mset xs)"
  by (induction xs) auto

lemma mset_sort_ranked: "mset (sort_ranked xs) = mset xs"
  by (induction xs) (auto simp: mset_insert_ranked)

lemma distinct_ids_sort_ranked:
  "distinct (map g (sort_ranked xs)) \<longleftrightarrow> distinct (map g xs)"
proof -
  have "mset (map g (sort_ranked xs)) = mset (map g xs)"
    by (simp add: mset_sort_ranked)
  then show ?thesis
    by (rule mset_eq_imp_distinct_iff)
qed

text \<open>An index built by \<open>upsert\<close> and \<open>delete_entry\<close> never holds an id twice.\<close>

lemma distinct_ids_filter:
  "distinct (map (\<lambda>e. Product.id' (fst e)) idx) \<Longrightarrow>
   distinct (map (\<lambda>e. Product.id' (fst e)) (filter P idx))"
  by (induction idx) auto

lemma distinct_ids_upsert:
  "distinct (map (\<lambda>e. Product.id' (fst e)) idx) \<Longrightarrow>
   distinct (map (\<lambda>e. Product.id' (fst e)) (upsert p v idx))"
  by (auto simp: upsert_def distinct_ids_filter)

lemma distinct_ids_delete_entry:
  "distinct (map (\<lambda>e. Product.id' (fst e)) idx) \<Longrightarrow>
   distinct (map (\<lambda>e. Product.id' (fst e)) (delete_entry i idx))"
  by (simp add: delete_entry_def distinct_ids_filter)

lemma upsert_replaces:
  "[e \<leftarrow> upsert p v idx. Product.id' (fst e) = Product.id' p] = [(p, v)]"
  by (induction idx) (auto simp: upsert_def)

text \<open>The answer of the index does not depend on the order in which it holds its entries.\<close>

lemma query_index_storage_order:
  assumes "set idx = set idx'"
    and "distinct (map (\<lambda>e. Product.id' (fst e)) idx)"
    and "distinct (map (\<lambda>e. Product.id' (fst e)) idx')"
  shows "query_index similarity idx v k = query_index similarity idx' v k"
proof -
  let ?score = "\<lambda>e. (fst e, similarity v (snd e))"
  have ids: "map (\<lambda>c. Product.id' (fst c)) (map ?score ys) = map (\<lambda>e. Product.id' (fst e)) ys" for ys
    by simp
  have "sort_ranked (map ?score idx) = sort_ranked (map ?score idx')"
  proof (rule ranked_unique)
    show "set (sort_ranked (map ?score idx)) = set (sort_ranked (map ?score idx'))"
      using assms(1) by (simp add: set_sort_ranked)
    show "distinct (map (\<lambda>c. Product.id' (fst c)) (sort_ranked (map ?score idx)))"
      using assms(2) by (simp only: distinct_ids_sort_ranked ids)
    show "distinct (map (\<lambda>c. Product.id' (fst c)) (sort_ranked (map ?score idx')))"
      using assms(3) by (simp only: distinct_ids_sort_ranked ids)
  qed (rule sorted_sort_ranked)+
  then show ?thesis
    by (simp add: query_index_def)
qed

lemma sorted_query_index: "sorted_wrt ranks_before (query_index similarity idx v k)"
  unfolding query_index_def by (intro sorted_wrt_take sorted_sort_ranked)

lemma set_query_index:
  "c \<in> set (query_index similarity idx v k) \<Longrightarrow> fst c \<in> fst ` set idx"
  unfolding query_index_def
  by (drule in_set_takeD) (force simp: set_sort_ranked)

lemma query_index_all:
  "length idx \<le> k \<Longrightarrow> mset (map fst (query_index similarity idx v k)) = mset (map fst idx)"
proof -
  assume "length idx \<le> k"
  then have "query_index similarity idx v k = sort_ranked (map (\<lambda>e. (fst e, similarity v (snd e))) idx)"
    by (simp add: query_index_def length_sort_ranked)
  then show ?thesis
    by (simp add: mset_sort_ranked multiset.map_comp comp_def)
qed

lemma recommend_Inr:
  assumes "recommend delegate similarity oversample_factor priceOf idx elapsed q k criteria = Inr r"
  shows "\<exists>v. trim q \<noteq> [] \<and> 0 < k \<and> embed delegate q = Inr v \<and>
           r = \<lparr>result_entries =
                   take (nat k) (rank_filter priceOf criteria
                     (query_index similarity idx v (nat k * oversample_factor))),
                 result_query = q,
                 result_total_found =
                   length (rank_filter priceOf criteria
                     (query_index similarity idx v (nat k * oversample_factor))),
                 result_latency = elapsed\<rparr>"
  using assms
  by (auto simp: recommend_def Let_def split: if_splits sum.splits)

lemma sorted_recommend:
  assumes "recommend delegate similarity oversample_factor priceOf idx elapsed q k criteria = Inr r"
  shows "sorted_wrt ranks_before (result_entries r)"
proof -
  from recommend_Inr[OF assms] obtain v where
    "result_entries r = take (nat k) (rank_filter priceOf criteria
                     (query_index similarity idx v (nat k * oversample_factor)))"
    by auto
  then show ?thesis
    by (simp add: rank_filter_def sorted_wrt_take sorted_wrt_filter sorted_query_index)
qed

lemma entries_recommend:
  assumes "recommend delegate similarity oversample_factor priceOf idx elapsed q k criteria = Inr r"
    and "c \<in> set (result_entries r)"
  shows "satisfies priceOf criteria (fst c) \<and> fst c \<in> fst ` set idx"
proof -
  from recommend_Inr[OF assms(1)] obtain v where
    "result_entries r = take (nat k) (rank_filter priceOf criteria
                     (query_index similarity idx v (nat k * oversample_factor)))"
    by auto
  with assms(2) have "c \<in> set (rank_filter priceOf criteria
                     (query_index similarity idx v (nat k * oversample_factor)))"
    by (auto dest: in_set_takeD)
  then show ?thesis
    by (auto simp: rank_filter_def dest: set_query_index)
qed

lemma embed_encoder:
  assumes "\<forall>n t. delegate n t = None \<or> delegate n t = Some (encoder t)"
    and "embed delegate q = Inr v"
  shows "v = encoder (normalize q)"
proof -
  from assms(1) have "delegate 0 (normalize q) = None \<or> delegate 0 (normalize q) = Some (encoder (normalize q))"
    and "delegate 1 (normalize q) = None \<or> delegate 1 (normalize q) = Some (encoder (normalize q))"
    by blast+
  with assms(2) show ?thesis
    by (auto simp: embed_def split: if_splits option.splits)
qed

lemma recommend_encoder:
  assumes "\<forall>n t. delegate n t = None \<or> delegate n t = Some (encoder t)"
    and "\<forall>n t. delegate' n t = None \<or> delegate' n t = Some (encoder t)"
    and "recommend delegate similarity oversample_factor priceOf idx elapsed q k criteria = Inr r"
    and "recommend delegate' similarity oversample_factor priceOf idx elapsed' q k criteria = Inr r'"
  shows "result_entries r = result_entries r' \<and> result_total_found r = result_total_found r'"
proof -
  from recommend_Inr[OF assms(3)] obtain v where
    v: "embed delegate q = Inr v"
    and r: "r = \<lparr>result_entries =
                   take (nat k) (rank_filter priceOf criteria
                     (query_index similarity idx v (nat k * oversample_factor))),
                 result_query = q,
                 result_total_found =
                   length (rank_filter priceOf criteria
                     (query_index similarity idx v (nat k * oversample_factor))),
                 result_latency = elapsed\<rparr>"
    by blast
  from recommend_Inr[OF assms(4)] obtain v' where
    v': "embed delegate' q = Inr v'"
    and r': "r' = \<lparr>result_entries =
                   take (nat k) (rank_filter priceOf criteria
                     (query_index similarity idx v' (nat k * oversample_factor))),
                 result_query = q,
                 result_total_found =
                   length (rank_filter priceOf criteria
                     (query_index similarity idx v' (nat k * oversample_factor))),
                 result_latency = elapsed'\<rparr>"
    by blast
  have "v = v'"
    using embed_encoder[OF assms(1) v] embed_encoder[OF assms(2) v'] by simp
  with r r' show ?thesis
    by simp
qed

lemma recommend_storage_order:
  assumes "set idx = set idx'"
    and "distinct (map (\<lambda>e. Product.id' (fst e)) idx)"
    and "distinct (map (\<lambda>e. Product.id' (fst e)) idx')"
  shows "recommend delegate similarity oversample_factor priceOf idx' elapsed q k criteria =
         recommend delegate similarity oversample_factor priceOf idx elapsed q k criteria"
  by (simp add: recommend_def query_index_storage_order[OF assms] split: sum.splits)

lemma handleSearch_idempotent:
  "handleSearch get_sample (fst (handleSearch get_sample s)) = handleSearch get_sample s"
  by (simp add: handleSearch_def Let_def split: sum.splits)

lemma recommend_excluded:
  assumes "trim q \<noteq> []" "0 < k" "embed delegate q = Inr v"
    and "\<forall>e\<in>set idx. \<not> satisfies priceOf criteria (fst e)"
  shows "recommend delegate similarity oversample_factor priceOf idx elapsed q k criteria =
           Inr \<lparr>result_entries = [], result_query = q, result_total_found = 0,
                result_latency = elapsed\<rparr>"
proof -
  have "rank_filter priceOf criteria (query_index similarity idx v n) = []" for n
    using assms(4) by (auto simp: rank_filter_def filter_empty_conv dest!: set_query_index)
  with assms(1-3) show ?thesis
    by (simp add: recommend_def)
qed

text \<open>
  C2. Every entry of a result of \<open>recommend\<close> is a product of the index that satisfies
  the filter criteria of the call, and the scores do not increase along the result. On
  the page, every product that the filter of handleSearch keeps matches the query.
\<close>

theorem recommend_result_invariant:
  "(recommend delegate similarity oversample_factor priceOf idx elapsed q k criteria = Inr r \<longrightarrow>
      (\<forall>c\<in>set (result_entries r).
          satisfies priceOf criteria (fst c) \<and> fst c \<in> fst ` set idx) \<and>
      sorted_wrt (\<lambda>a b. snd b \<le> snd a) (result_entries r)) \<and>
   (filteredProducts q' ps = Inr out \<longrightarrow> (\<forall>p\<in>set out. substringMatch q' p))"
proof -
  have kept: "\<forall>c\<in>set (result_entries r).
          satisfies priceOf criteria (fst c) \<and> fst c \<in> fst ` set idx"
    if "recommend delegate similarity oversample_factor priceOf idx elapsed q k criteria = Inr r"
    using entries_recommend[OF that] by blast
  have ordered: "sorted_wrt (\<lambda>a b. snd b \<le> snd a) (result_entries r)"
    if "recommend delegate similarity oversample_factor priceOf idx elapsed q k criteria = Inr r"
    using sorted_recommend[OF that] by (rule sorted_scores)
  have page: "\<forall>p\<in>set out. substringMatch q' p" if "filteredProducts q' ps = Inr out"
    using filteredProducts_Inr[OF that] by simp
  from kept ordered page show ?thesis
    by blast
qed

theorem recommend_result_invariant_witness:
  "recommend sampleDelegate sampleSimilarity 2 samplePriceOf sampleIndex (12::nat) ''sofa'' 2
      (brandOnly ''Acme'')
     = Inr \<lparr>result_entries =
              [(catalogProduct ''a'' ''Red Sofa'' ''Acme'', - 3),
               (catalogProduct ''b'' ''Blue Sofa'' ''Acme'', - 5)],
            result_query = ''sofa'', result_total_found = 2, result_latency = 12\<rparr> \<and>
   satisfies samplePriceOf (brandOnly ''Acme'') (catalogProduct ''a'' ''Red Sofa'' ''Acme'') \<and>
   satisfies samplePriceOf (brandOnly ''Acme'') (catalogProduct ''b'' ''Blue Sofa'' ''Acme'') \<and>
   sorted_wrt (\<lambda>a b. snd b \<le> snd a)
     [(catalogProduct ''a'' ''Red Sofa'' ''Acme'', - 3 :: int),
      (catalogProduct ''b'' ''Blue Sofa'' ''Acme'', - 5)] \<and>
   filteredProducts ''sofa'' [redSofa, oakChair] = Inr [redSofa] \<and>
   substringMatch ''sofa'' redSofa"
proof -
  have run: "recommend sampleDelegate sampleSimilarity 2 samplePriceOf sampleIndex (12::nat) ''sofa'' 2
      (brandOnly ''Acme'')
     = Inr \<lparr>result_entries =
              [(catalogProduct ''a'' ''Red Sofa'' ''Acme'', - 3),
               (catalogProduct ''b'' ''Blue Sofa'' ''Acme'', - 5)],
            result_query = ''sofa'', result_total_found = 2, result_latency = 12\<rparr>"
    by code_simp
  have page: "filteredProducts ''sofa'' [redSofa, oakChair] = Inr [redSofa]"
    by code_simp
  note inst = recommend_result_invariant
    [of sampleDelegate sampleSimilarity 2 samplePriceOf sampleIndex "12::nat" "''sofa''" 2
        "brandOnly ''Acme''" _ "''sofa''" "[redSofa, oakChair]" "[redSofa]"]
  from inst run have
    "(\<forall>c\<in>set [(catalogProduct ''a'' ''Red Sofa'' ''Acme'', - 3 :: int),
               (catalogProduct ''b'' ''Blue Sofa'' ''Acme'', - 5)].
        satisfies samplePriceOf (brandOnly ''Acme'') (fst c) \<and> fst c \<in> fst ` set sampleIndex) \<and>
     sorted_wrt (\<lambda>a b. snd b \<le> snd a)
       [(catalogProduct ''a'' ''Red Sofa'' ''Acme'', - 3 :: int),
        (catalogProduct ''b'' ''Blue Sofa'' ''Acme'', - 5)]"
    by (metis RecommendationResult.select_convs(1))
  moreover from inst page have "\<forall>p\<in>set [redSofa]. substringMatch ''sofa'' p"
    by blast
  ultimately show ?thesis
    using run page by simp
qed

text \<open>
  C3. \<open>recommend\<close> is deterministic: two successful calls with the same arguments on
  the same index return the same ordered entries and the same count, whatever latency
  each measures and whichever attempts of the encoder fail; entries of equal score stand
  in ascending order of product id; and the answer does not depend on the order in which
  the index holds its entries (no two with one id). On the page, running handleSearch
  again on its own result with the same response changes nothing.
\<close>

theorem recommend_deterministic:
  "((\<forall>n t. delegate n t = None \<or> delegate n t = Some (encoder t)) \<and>
    (\<forall>n t. delegate' n t = None \<or> delegate' n t = Some (encoder t)) \<and>
    recommend delegate similarity oversample_factor priceOf idx elapsed q k criteria = Inr r \<and>
    recommend delegate' similarity oversample_factor priceOf idx elapsed' q k criteria = Inr r' \<longrightarrow>
      result_entries r = result_entries r' \<and> result_total_found r = result_total_found r') \<and>
   (recommend delegate similarity oversample_factor priceOf idx elapsed q k criteria = Inr r \<longrightarrow>
      sorted_wrt (\<lambda>a b. snd a = snd b \<longrightarrow> Product.id' (fst a) \<le> Product.id' (fst b))
        (result_entries r)) \<and>
   (set idx = set idx' \<and> distinct (map (\<lambda>e. Product.id' (fst e)) idx) \<and>
    distinct (map (\<lambda>e. Product.id' (fst e)) idx') \<longrightarrow>
      recommend delegate similarity oversample_factor priceOf idx' elapsed q k criteria =
      recommend delegate similarity oversample_factor priceOf idx elapsed q k criteria) \<and>
   handleSearch get_sample (fst (handleSearch get_sample s)) = handleSearch get_sample s"
proof -
  have calls: "result_entries r = result_entries r' \<and> result_total_found r = result_total_found r'"
    if "\<forall>n t. delegate n t = None \<or> delegate n t = Some (encoder t)"
      and "\<forall>n t. delegate' n t = None \<or> delegate' n t = Some (encoder t)"
      and "recommend delegate similarity oversample_factor priceOf idx elapsed q k criteria = Inr r"
      and "recommend delegate' similarity oversample_factor priceOf idx elapsed' q k criteria = Inr r'"
    using that by (rule recommend_encoder)
  have ties: "sorted_wrt (\<lambda>a b. snd a = snd b \<longrightarrow> Product.id' (fst a) \<le> Product.id' (fst b))
        (result_entries r)"
    if "recommend delegate similarity oversample_factor priceOf idx elapsed q k criteria = Inr r"
    using sorted_recommend[OF that] by (rule sorted_ties)
  have storage: "recommend delegate similarity oversample_factor priceOf idx' elapsed q k criteria =
      recommend delegate similarity oversample_factor priceOf idx elapsed q k criteria"
    if "set idx = set idx'" "distinct (map (\<lambda>e. Product.id' (fst e)) idx)"
      "distinct (map (\<lambda>e. Product.id' (fst e)) idx')"
    using that by (rule recommend_storage_order)
  show ?thesis
  proof (intro conjI impI)
    assume h: "(\<forall>n t. delegate n t = None \<or> delegate n t = Some (encoder t)) \<and>
      (\<forall>n t. delegate' n t = None \<or> delegate' n t = Some (encoder t)) \<and>
      recommend delegate similarity oversample_factor priceOf idx elapsed q k criteria = Inr r \<and>
      recommend delegate' similarity oversample_factor priceOf idx elapsed' q k criteria = Inr r'"
    from h have h1: "\<forall>n t. delegate n t = None \<or> delegate n t = Some (encoder t)"
      and h2: "\<forall>n t. delegate' n t = None \<or> delegate' n t = Some (encoder t)"
      and h3: "recommend delegate similarity oversample_factor priceOf idx elapsed q k criteria = Inr r"
      and h4: "recommend delegate' similarity oversample_factor priceOf idx elapsed' q k criteria = Inr r'"
      by blast+
    from calls[OF h1 h2 h3 h4]
    show "result_entries r = result_entries r'" and "result_total_found r = result_total_found r'"
      by blast+
  next
    assume "recommend delegate similarity oversample_factor priceOf idx elapsed q k criteria = Inr r"
    then show "sorted_wrt (\<lambda>a b. snd a = snd b \<longrightarrow> Product.id' (fst a) \<le> Product.id' (fst b))
        (result_entries r)"
      by (rule ties)
  next
    assume h: "set idx = set idx' \<and> distinct (map (\<lambda>e. Product.id' (fst e)) idx) \<and>
      distinct (map (\<lambda>e. Product.id' (fst e)) idx')"
    from h have "set idx = set idx'" and "distinct (map (\<lambda>e. Product.id' (fst e)) idx)"
      and "distinct (map (\<lambda>e. Product.id' (fst e)) idx')"
      by blast+
    then show "recommend delegate similarity oversample_factor priceOf idx' elapsed q k criteria =
      recommend delegate similarity oversample_factor priceOf idx elapsed q k criteria"
      by (rule storage)
  next
    show "handleSearch get_sample (fst (handleSearch get_sample s)) = handleSearch get_sample s"
      by (rule handleSearch_idempotent)
  qed
qed

theorem recommend_deterministic_witness:
  "recommend sampleDelegate sampleSimilarity 2 samplePriceOf sampleIndex (12::nat) ''chair'' 3 None
     = Inr \<lparr>result_entries =
              [(catalogProduct ''c'' ''Red Chair'' ''Borg'', 0),
               (catalogProduct ''a'' ''Red Sofa'' ''Acme'', - 4),
               (catalogProduct ''b'' ''Blue Sofa'' ''Acme'', - 4)],
            result_query = ''chair'', result_total_found = 3, result_latency = 12\<rparr> \<and>
   recommend flakyDelegate sampleSimilarity 2 samplePriceOf sampleIndex (40::nat) ''chair'' 3 None
     = Inr \<lparr>result_entries =
              [(catalogProduct ''c'' ''Red Chair'' ''Borg'', 0),
               (catalogProduct ''a'' ''Red Sofa'' ''Acme'', - 4),
               (catalogProduct ''b'' ''Blue Sofa'' ''Acme'', - 4)],
            result_query = ''chair'', result_total_found = 3, result_latency = 40\<rparr> \<and>
   sorted_wrt (\<lambda>a b. snd a = snd b \<longrightarrow> Product.id' (fst a) \<le> Product.id' (fst b))
     [(catalogProduct ''c'' ''Red Chair'' ''Borg'', 0 :: int),
      (catalogProduct ''a'' ''Red Sofa'' ''Acme'', - 4),
      (catalogProduct ''b'' ''Blue Sofa'' ''Acme'', - 4)] \<and>
   set sampleIndex = set (rev sampleIndex) \<and>
   distinct (map (\<lambda>e. Product.id' (fst e)) sampleIndex) \<and>
   recommend sampleDelegate sampleSimilarity 2 samplePriceOf (rev sampleIndex) (12::nat) ''chair'' 3 None
     = recommend sampleDelegate sampleSimilarity 2 samplePriceOf sampleIndex (12::nat) ''chair'' 3 None \<and>
   handleSearch (Inr \<lparr>status = 200, data = Some [redSofa, oakChair]\<rparr>)
       (fst (handleSearch (Inr \<lparr>status = 200, data = Some [redSofa, oakChair]\<rparr>)
               (idlePage ''sofa'' [oakChair])))
     = handleSearch (Inr \<lparr>status = 200, data = Some [redSofa, oakChair]\<rparr>)
         (idlePage ''sofa'' [oakChair])"
proof -
  let ?entries = "[(catalogProduct ''c'' ''Red Chair'' ''Borg'', 0 :: int),
      (catalogProduct ''a'' ''Red Sofa'' ''Acme'', - 4),
      (catalogProduct ''b'' ''Blue Sofa'' ''Acme'', - 4)]"
  let ?first = "\<lparr>result_entries = ?entries,
            result_query = ''chair'', result_total_found = 3, result_latency = (12::nat)\<rparr>"
  let ?second = "\<lparr>result_entries = ?entries,
            result_query = ''chair'', result_total_found = 3, result_latency = (40::nat)\<rparr>"
  have run: "recommend sampleDelegate sampleSimilarity 2 samplePriceOf sampleIndex (12::nat) ''chair'' 3 None
     = Inr ?first"
    by code_simp
  have later: "recommend flakyDelegate sampleSimilarity 2 samplePriceOf sampleIndex (40::nat) ''chair'' 3 None
     = Inr ?second"
    by code_simp
  have e1: "\<forall>n t. sampleDelegate n t = None \<or> sampleDelegate n t = Some (int (length t))"
    by (simp add: sampleDelegate_def)
  have e2: "\<forall>n t. flakyDelegate n t = None \<or> flakyDelegate n t = Some (int (length t))"
    by (simp add: flakyDelegate_def)
  have same: "set sampleIndex = set (rev sampleIndex)"
    by simp
  have d1: "distinct (map (\<lambda>e. Product.id' (fst e)) sampleIndex)"
    by (simp add: sampleIndex_def catalogProduct_def)
  have d2: "distinct (map (\<lambda>e. Product.id' (fst e)) (rev sampleIndex))"
    using d1 by (simp add: rev_map[symmetric])
  note inst = recommend_deterministic
    [of sampleDelegate "\<lambda>t. int (length t)" flakyDelegate sampleSimilarity 2 samplePriceOf
        sampleIndex "12::nat" "''chair''" 3 None ?first "40::nat" ?second "rev sampleIndex"
        "Inr \<lparr>status = 200, data = Some [redSofa, oakChair]\<rparr>" "idlePage ''sofa'' [oakChair]"]
  note calls_part = inst[THEN conjunct1, rule_format, OF conjI[OF e1 conjI[OF e2 conjI[OF run later]]]]
  note ties_part = inst[THEN conjunct2, THEN conjunct1, rule_format, OF run]
  note storage_part = inst[THEN conjunct2, THEN conjunct2, THEN conjunct1, rule_format]
  note page_part = inst[THEN conjunct2, THEN conjunct2, THEN conjunct2]
  have agree: "result_entries ?first = result_entries ?second"
    using calls_part by (rule conjunct1)
  have ties: "sorted_wrt (\<lambda>a b. snd a = snd b \<longrightarrow> Product.id' (fst a) \<le> Product.id' (fst b)) ?entries"
    using ties_part by (simp only: RecommendationResult.select_convs)
  have storage: "recommend sampleDelegate sampleSimilarity 2 samplePriceOf (rev sampleIndex) (12::nat) ''chair'' 3 None
     = recommend sampleDelegate sampleSimilarity 2 samplePriceOf sampleIndex (12::nat) ''chair'' 3 None"
    by (rule storage_part) (intro conjI same d1 d2)
  have again: "handleSearch (Inr \<lparr>status = 200, data = Some [redSofa, oakChair]\<rparr>)
       (fst (handleSearch (Inr \<lparr>status = 200, data = Some [redSofa, oakChair]\<rparr>)
               (idlePage ''sofa'' [oakChair])))
     = handleSearch (Inr \<lparr>status = 200, data = Some [redSofa, oakChair]\<rparr>)
         (idlePage ''sofa'' [oakChair])"
    by (rule page_part)
  show ?thesis
    by (intro conjI run later ties same d1 storage again)
qed

text \<open>
  C6. A query for at least as many entries as the index holds returns all its entries;
  a query for none returns the empty list; and a valid call of \<open>recommend\<close> whose
  criteria exclude every product of the index returns the empty list with a count of 0.
\<close>

theorem query_index_boundaries:
  "(length idx \<le> k \<longrightarrow>
      mset (map fst (query_index similarity idx v k)) = mset (map fst idx)) \<and>
   query_index similarity idx v 0 = [] \<and>
   (trim q \<noteq> [] \<and> 0 < n \<and> embed delegate q = Inr w \<and>
    (\<forall>e\<in>set idx. \<not> satisfies priceOf criteria (fst e)) \<longrightarrow>
      recommend delegate similarity oversample_factor priceOf idx elapsed q n criteria =
        Inr \<lparr>result_entries = [], result_query = q, result_total_found = 0,
             result_latency = elapsed\<rparr>)"
proof -
  have all: "mset (map fst (query_index similarity idx v k)) = mset (map fst idx)"
    if "length idx \<le> k"
    using that by (rule query_index_all)
  have none: "query_index similarity idx v 0 = []"
    by (simp add: query_index_def)
  have excluded: "recommend delegate similarity oversample_factor priceOf idx elapsed q n criteria =
        Inr \<lparr>result_entries = [], result_query = q, result_total_found = 0,
             result_latency = elapsed\<rparr>"
    if "trim q \<noteq> []" "0 < n" "embed delegate q = Inr w"
      "\<forall>e\<in>set idx. \<not> satisfies priceOf criteria (fst e)"
    using that by (rule recommend_excluded)
  show ?thesis
  proof (intro conjI impI)
    assume "length idx \<le> k"
    then show "mset (map fst (query_index similarity idx v k)) = mset (map fst idx)"
      by (rule all)
  next
    show "query_index similarity idx v 0 = []"
      by (rule none)
  next
    assume h: "trim q \<noteq> [] \<and> 0 < n \<and> embed delegate q = Inr w \<and>
      (\<forall>e\<in>set idx. \<not> satisfies priceOf criteria (fst e))"
    from h have h1: "trim q \<noteq> []" and h2: "0 < n" and h3: "embed delegate q = Inr w"
      and h4: "\<forall>e\<in>set idx. \<not> satisfies priceOf criteria (fst e)"
      by blast+
    from h1 h2 h3 h4
    show "recommend delegate similarity oversample_factor priceOf idx elapsed q n criteria =
        Inr \<lparr>result_entries = [], result_query = q, result_total_found = 0,
             result_latency = elapsed\<rparr>"
      by (rule excluded)
  qed
qed

theorem query_index_boundaries_witness:
  "length sampleIndex \<le> 7 \<and>
   mset (map fst (query_index sampleSimilarity sampleIndex 5 7)) = mset (map fst sampleIndex) \<and>
   query_index sampleSimilarity sampleIndex 5 0 = [] \<and>
   trim ''sofa'' \<noteq> [] \<and> (0::int) < 2 \<and> embed sampleDelegate ''sofa'' = Inr 4 \<and>
   list_all (\<lambda>e. \<not> satisfies samplePriceOf (brandOnly ''Nobody'') (fst e)) sampleIndex \<and>
   recommend sampleDelegate sampleSimilarity 2 samplePriceOf sampleIndex (12::nat) ''sofa'' 2
       (brandOnly ''Nobody'')
     = Inr \<lparr>result_entries = [], result_query = ''sofa'', result_total_found = 0,
            result_latency = 12\<rparr>"
proof -
  have size: "length sampleIndex \<le> 7"
    by (simp add: sampleIndex_def)
  have nonblank: "trim ''sofa'' \<noteq> []"
    by code_simp
  have vec: "embed sampleDelegate ''sofa'' = Inr 4"
    by code_simp
  have excl: "list_all (\<lambda>e. \<not> satisfies samplePriceOf (brandOnly ''Nobody'') (fst e)) sampleIndex"
    by code_simp
  note inst = query_index_boundaries
    [of sampleIndex 7 sampleSimilarity 5 "''sofa''" 2 sampleDelegate 4 samplePriceOf
        "brandOnly ''Nobody''" 2 "12::nat"]
  have all: "mset (map fst (query_index sampleSimilarity sampleIndex 5 7)) = mset (map fst sampleIndex)"
    using inst size by blast
  have zero: "query_index sampleSimilarity sampleIndex 5 0 = []"
    using inst by blast
  have empty: "recommend sampleDelegate sampleSimilarity 2 samplePriceOf sampleIndex (12::nat) ''sofa'' 2
       (brandOnly ''Nobody'')
     = Inr \<lparr>result_entries = [], result_query = ''sofa'', result_total_found = 0,
            result_latency = 12\<rparr>"
    using inst nonblank vec excl by (simp add: list_all_iff)
  from size all zero nonblank vec excl empty show ?thesis
    by simp
qed


section \<open>The shape of the response\<close>

text \<open>
  C7 (as amended). A RecommendationResponse consists of four fields: the ordered sequence
  \<open>recommendations\<close> of products, the \<open>query\<close> string and the numbers \<open>total_found\<close>
  and \<open>processing_time\<close>. The products carry no similarity score: every field of
  Product is a string or an array of strings.
\<close>

theorem RecommendationResponse_shape:
  "map fst RecommendationResponse_interface =
     [''recommendations'', ''query'', ''total_found'', ''processing_time''] \<and>
   map_of RecommendationResponse_interface ''recommendations'' = Some (TArray (TRef ''Product'')) \<and>
   map_of RecommendationResponse_interface ''query'' = Some TString \<and>
   map_of RecommendationResponse_interface ''total_found'' = Some TNumber \<and>
   map_of RecommendationResponse_interface ''processing_time'' = Some TNumber \<and>
   set (map snd (declared ''Product'')) = {TString, TArray TString}"
  by (auto simp: RecommendationResponse_interface_def declared_def Product_interface_def)

text \<open>
  The entries of \<open>recommendations\<close> are products, not pairs of a product and a score, and
  Product declares neither a number nor a field named score.
\<close>

theorem RecommendationResponse_scores_counterexample:
  "map_of RecommendationResponse_interface ''recommendations''
     \<noteq> Some (TArray (TTuple [TRef ''Product'', TNumber])) \<and>
   map_of RecommendationResponse_interface ''recommendations'' = Some (TArray (TRef ''Product'')) \<and>
   TNumber \<notin> set (map snd (declared ''Product'')) \<and>
   map_of (declared ''Product'') ''score'' = None"
  by (simp add: RecommendationResponse_interface_def declared_def Product_interface_def)

end
